theory Spec2Isabelle
  imports Complex_Main "HOL-Library.AList"
begin

section \<open>Data model (server/models/Blog.js, server/models/User.js)\<close>

text \<open>
  The \<open>status\<close> path of the blog schema is a string restricted by an enum validator to
  five values; the role of a user is one of two strings.
\<close>

datatype status = Draft | Pending | Published | Rejected | Hidden

datatype role = RoleUser | RoleAdmin

text \<open>
  The ways a request ends without its regular answer. The first six are
  \<open>res.status(...).json(...)\<close> returns of the routes and the middleware; the last three
  are exceptions a handler does not catch.
  \<^item> \<open>ValidationFailed\<close>: 400 with the \<open>errors\<close> array of express-validator;
  \<^item> \<open>NotAuthenticated\<close>: 401 of the \<open>protect\<close> middleware;
  \<^item> \<open>AccessDenied\<close>: 403 of the \<open>admin\<close> middleware and of the owner-or-admin check;
  \<^item> \<open>NotFound\<close>: 404, the document does not exist;
  \<^item> \<open>InvalidState\<close>: 400, the blog is not in the status the transition needs;
  \<^item> \<open>OwnAccount\<close>: 400, an admin addressed a user-management route to themselves;
  \<^item> \<open>SchemaValidationError\<close>: Mongoose refused a document at \<open>save()\<close>, or an update
    under \<open>runValidators\<close>, because a schema validator failed;
  \<^item> \<open>DuplicateKey\<close>: a unique index refused a write;
  \<^item> \<open>ServerError\<close>: any other exception: a \<open>TypeError\<close> in a getter, \<open>new RegExp\<close> on
    a malformed pattern, a query the database refuses.
\<close>

datatype error =
    ValidationFailed
  | NotAuthenticated
  | AccessDenied
  | NotFound
  | InvalidState
  | OwnAccount
  | SchemaValidationError
  | DuplicateKey
  | ServerError

text \<open>
  Object ids and dates are natural numbers; strings are ASCII strings. Numbers that
  count (views, shares, read time) are natural numbers; where the code adds to one, the
  result is rounded as a double rounds it (\<open>fl\<close> below).
\<close>

type_synonym oid = nat
type_synonym date = nat

text \<open>
  A request reads the clock several times: \<open>clk k\<close> is the \<open>k\<close>-th reading of
  \<open>new Date()\<close> while the request is served.
\<close>

type_synonym clock = "nat \<Rightarrow> date"

record reply =
  r_user :: oid
  r_content :: string
  r_createdAt :: date

record comment =
  c_user :: oid
  c_content :: string
  c_isEdited :: bool
  c_editedAt :: "date option"
  c_likes :: "oid list"
  c_replies :: "reply list"
  c_createdAt :: "date option"
  c_updatedAt :: "date option"

record seo =
  metaTitle :: "string option"
  metaDescription :: "string option"
  seo_keywords :: "string list"

record analytics =
  uniqueVisitors :: nat
  bounceRate :: nat
  avgTimeOnPage :: nat

text \<open>
  A blog document: the paths the schema declares and the two that the option
  \<open>timestamps: true\<close> adds. Before its first save a document has no slug and no
  timestamps. The \<open>_id\<close> is the key under which the collection holds the document;
  the version key \<open>__v\<close>, which a save changes only when it rewrites an array, and the
  ids of embedded comments are left out.
\<close>

record blog =
  title :: string
  slug :: "string option"
  content :: string
  excerpt :: string
  author :: oid
  status :: status
  category :: string
  tags :: "string list"
  featuredImage :: string
  readTime :: nat
  views :: nat
  likes :: "oid list"
  comments :: "comment list"
  shares :: nat
  isFeatured :: bool
  isTrending :: bool
  publishedAt :: "date option"
  approvedBy :: "oid option"
  approvedAt :: "date option"
  rejectionReason :: "string option"
  seo :: seo
  analytics :: analytics
  createdAt :: "date option"
  updatedAt :: "date option"

text \<open>Of a user the routes read the role and the active flag (the model file is absent).\<close>

record user =
  role :: role
  isActive :: bool

text \<open>
  The two collections, each a list of documents keyed by \<open>_id\<close>. \<open>findById\<close> is
  \<^const>\<open>map_of\<close>, writing a loaded document back is \<^const>\<open>AList.update\<close>.
\<close>

record db =
  users :: "(oid \<times> user) list"
  blogs :: "(oid \<times> blog) list"

section \<open>JavaScript numbers\<close>

text \<open>
  The number of binary digits of a natural number, and the natural number a double
  holds when it is given one: itself below \<open>2^53\<close>, above that the nearest multiple
  of the spacing of doubles at that size, ties to the even mantissa. (From \<open>2^1024\<close>
  on the code has \<open>Infinity\<close>. Only a page number can be that large, and it gives a
  skip that the database refuses.)
\<close>

function bits :: "nat \<Rightarrow> nat" where
  "bits 0 = 0"
| "bits (Suc n) = Suc (bits (Suc n div 2))"
  by pat_completeness auto
termination
  by (relation "measure id") auto

definition fl :: "nat \<Rightarrow> nat" where
  "fl n =
     (if n < 2 ^ 53 then n
      else
        let e = bits n - 53; q = n div 2 ^ e; r = n mod 2 ^ e; h = 2 ^ (e - 1)
        in if r < h \<or> (r = h \<and> even q) then q * 2 ^ e else (q + 1) * 2 ^ e)"

definition fl_int :: "int \<Rightarrow> int" where
  "fl_int i = (if i < 0 then - int (fl (nat (- i))) else int (fl (nat i)))"

section \<open>The blog model: setters, validators, virtuals, the pre-save hook, methods\<close>

subsection \<open>Setters\<close>

definition is_space :: "char \<Rightarrow> bool" where
  "is_space c = (c \<in> set [CHR 0x09, CHR 0x0A, CHR 0x0B, CHR 0x0C, CHR 0x0D, CHR '' ''])"

definition trim :: "string \<Rightarrow> string" where
  \<comment> \<open>\<open>trim: true\<close> on \<open>title\<close>, on each tag and on the content of a comment or reply\<close>
  "trim s = rev (dropWhile is_space (rev (dropWhile is_space s)))"

subsection \<open>Validators\<close>

definition categories :: "string list" where
  "categories = [''Technology'', ''Business'', ''Lifestyle'', ''Health'', ''Education'',
                 ''Entertainment'', ''Sports'', ''Politics'', ''Science'', ''Other'']"

definition length_between :: "nat \<Rightarrow> nat \<Rightarrow> string \<Rightarrow> bool" where
  "length_between lo hi s = (lo \<le> length s \<and> length s \<le> hi)"

text \<open>One predicate for each path that has validators; \<open>required\<close> refuses the empty string.\<close>

definition ok_title :: "string \<Rightarrow> bool" where
  "ok_title t = length_between 10 200 t"

definition ok_slug :: "string option \<Rightarrow> bool" where
  "ok_slug s = (case s of None \<Rightarrow> False | Some x \<Rightarrow> x \<noteq> [])"

definition ok_content :: "string \<Rightarrow> bool" where
  "ok_content c = (100 \<le> length c)"

definition ok_excerpt :: "string \<Rightarrow> bool" where
  "ok_excerpt e = (e \<noteq> [] \<and> length e \<le> 300)"

definition ok_category :: "string \<Rightarrow> bool" where
  "ok_category c = (c \<in> set categories)"

definition ok_tags :: "string list \<Rightarrow> bool" where
  "ok_tags ts = list_all (\<lambda>t. length t \<le> 20) ts"

definition ok_reason :: "string option \<Rightarrow> bool" where
  "ok_reason r = (case r of None \<Rightarrow> True | Some x \<Rightarrow> length x \<le> 500)"

definition ok_seo :: "seo \<Rightarrow> bool" where
  "ok_seo s =
     ((case metaTitle s of None \<Rightarrow> True | Some t \<Rightarrow> length t \<le> 60)
      \<and> (case metaDescription s of None \<Rightarrow> True | Some t \<Rightarrow> length t \<le> 160))"

definition ok_reply :: "reply \<Rightarrow> bool" where
  "ok_reply r = (r_content r \<noteq> [] \<and> length (r_content r) \<le> 500)"

definition ok_comment :: "comment \<Rightarrow> bool" where
  "ok_comment c =
     (c_content c \<noteq> [] \<and> length (c_content c) \<le> 1000 \<and> list_all ok_reply (c_replies c))"

definition ok_comments :: "comment list \<Rightarrow> bool" where
  "ok_comments cs = list_all ok_comment cs"

text \<open>
  The validation \<open>save()\<close> runs first: every path of the document, loaded or assigned,
  against its validators.
\<close>

definition valid_doc :: "blog \<Rightarrow> bool" where
  "valid_doc b =
     (ok_title (title b) \<and> ok_slug (slug b) \<and> ok_content (content b) \<and> ok_excerpt (excerpt b)
      \<and> ok_category (category b) \<and> ok_tags (tags b) \<and> ok_reason (rejectionReason b)
      \<and> ok_seo (seo b) \<and> ok_comments (comments b))"

subsection \<open>Slug\<close>

definition toLowerCase :: "string \<Rightarrow> string" where
  "toLowerCase s =
     map (\<lambda>c. case map_of (zip ''ABCDEFGHIJKLMNOPQRSTUVWXYZ'' ''abcdefghijklmnopqrstuvwxyz'') c of
                 None \<Rightarrow> c | Some d \<Rightarrow> d) s"

definition is_alnum :: "char \<Rightarrow> bool" where
  \<comment> \<open>the complement of the character class \<open>[^a-z0-9]\<close>\<close>
  "is_alnum c = (c \<in> set ''abcdefghijklmnopqrstuvwxyz0123456789'')"

text \<open>\<open>.replace(/[^a-z0-9]+/g, '-')\<close>: every maximal run of other characters becomes one hyphen.\<close>

function collapse_runs :: "string \<Rightarrow> string" where
  "collapse_runs [] = []"
| "collapse_runs (c # cs) =
     (if is_alnum c then c # collapse_runs cs
      else CHR ''-'' # collapse_runs (dropWhile (\<lambda>d. \<not> is_alnum d) cs))"
  by pat_completeness auto
termination
  by (relation "measure length") (auto simp: length_dropWhile_le le_imp_less_Suc)

text \<open>\<open>.replace(/(^-|-$)/g, '')\<close>: a hyphen at the start goes, then a hyphen at the end.\<close>

definition strip_hyphens :: "string \<Rightarrow> string" where
  "strip_hyphens s =
     (let t = (case s of [] \<Rightarrow> [] | c # cs \<Rightarrow> if c = CHR ''-'' then cs else s)
      in if t \<noteq> [] \<and> last t = CHR ''-'' then butlast t else t)"

definition slugify :: "string \<Rightarrow> string" where
  "slugify t = strip_hyphens (collapse_runs (toLowerCase t))"

subsection \<open>Virtuals\<close>

text \<open>
  \<open>estimatedReadTime\<close> is \<open>Math.ceil(this.content.split(' ').length / 200)\<close>. On a
  document that was selected without its content, \<open>this.content\<close> is undefined and the
  getter throws a \<open>TypeError\<close>; the argument is the content, if the document has it.
\<close>

definition estimatedReadTime :: "string option \<Rightarrow> error + nat" where
  "estimatedReadTime c =
     (case c of
        None \<Rightarrow> Inl ServerError
      | Some s \<Rightarrow>
          let wordCount = length (filter (\<lambda>x. x = CHR '' '') s) + 1
          in Inr ((wordCount + 199) div 200))"

text \<open>
  The schema sets \<open>toJSON: { virtuals: true }\<close>, so \<open>res.json\<close> calls every virtual
  getter of every document it serialises. \<open>toJSON has_content b\<close> is the outcome for the
  document \<open>b\<close>, selected with its content or without.
\<close>

definition toJSON :: "bool \<Rightarrow> blog \<Rightarrow> error + blog" where
  "toJSON has_content b =
     (case estimatedReadTime (if has_content then Some (content b) else None) of
        Inl e \<Rightarrow> Inl e
      | Inr n \<Rightarrow> Inr b)"

definition toJSON_all :: "bool \<Rightarrow> blog list \<Rightarrow> error + blog list" where
  "toJSON_all has_content docs =
     (if list_all (\<lambda>b. \<not> isl (toJSON has_content b)) docs then Inr docs else Inl ServerError)"

subsection \<open>Pre-save hook and save\<close>

text \<open>
  The paths whose modification the hook asks about, and the others a handler assigns. A
  handler passes the set of paths it has changed before \<open>save()\<close>.
\<close>

datatype path =
    PTitle | PContent | PStatus | PViews | PLikes | PComments
  | PPublishedAt | PApprovedBy | PApprovedAt | PRejectionReason | POther

definition falsy :: "string option \<Rightarrow> bool" where
  \<comment> \<open>\<open>!this.slug\<close>: undefined or the empty string\<close>
  "falsy s = (s = None \<or> s = Some [])"

definition pre_save :: "path set \<Rightarrow> date \<Rightarrow> blog \<Rightarrow> blog" where
  \<comment> \<open>\<open>blogSchema.pre('save', ...)\<close>; \<open>now\<close> is the hook's own reading of the clock\<close>
  "pre_save modified now b =
     (let b1 = (if PTitle \<in> modified \<and> falsy (slug b)
                then b\<lparr>slug := Some (slugify (title b))\<rparr> else b);
          b2 = (if PContent \<in> modified
                then (case estimatedReadTime (Some (content b1)) of
                        Inl e \<Rightarrow> b1 | Inr n \<Rightarrow> b1\<lparr>readTime := n\<rparr>)
                else b1);
          b3 = (if PStatus \<in> modified \<and> status b2 = Published \<and> publishedAt b2 = None
                then b2\<lparr>publishedAt := Some now\<rparr> else b2)
      in b3)"

text \<open>
  \<open>save()\<close> of a loaded document. Mongoose runs its validation before every
  \<open>pre('save')\<close> hook and refuses the document when a validator fails; then the
  timestamps hook sets \<open>updatedAt\<close> if a path was modified (reading \<open>k\<close> of the clock),
  then the hook of the schema runs (reading \<open>k + 1\<close>).
\<close>

definition save :: "path set \<Rightarrow> clock \<Rightarrow> nat \<Rightarrow> blog \<Rightarrow> error + blog" where
  "save modified clk k b =
     (if \<not> valid_doc b then Inl SchemaValidationError
      else Inr (pre_save modified (clk (Suc k))
                  (if modified = {} then b else b\<lparr>updatedAt := Some (clk k)\<rparr>)))"

text \<open>The first save of a new document: both timestamps are set.\<close>

definition save_new :: "path set \<Rightarrow> clock \<Rightarrow> nat \<Rightarrow> blog \<Rightarrow> error + blog" where
  "save_new modified clk k b =
     (if \<not> valid_doc b then Inl SchemaValidationError
      else Inr (pre_save modified (clk (Suc k))
                  (b\<lparr>createdAt := Some (clk k), updatedAt := Some (clk k)\<rparr>)))"

subsection \<open>Methods\<close>

definition incrementViews :: "clock \<Rightarrow> nat \<Rightarrow> blog \<Rightarrow> error + blog" where
  \<comment> \<open>\<open>this.views += 1; return this.save()\<close>; the path is modified if the number changed\<close>
  "incrementViews clk k b =
     save (if fl (views b + 1) = views b then {} else {PViews}) clk k
       (b\<lparr>views := fl (views b + 1)\<rparr>)"

definition toggleLike :: "clock \<Rightarrow> nat \<Rightarrow> oid \<Rightarrow> blog \<Rightarrow> error + blog" where
  \<comment> \<open>\<open>indexOf\<close> gives the first position; \<open>splice(likeIndex, 1)\<close> removes that one entry\<close>
  "toggleLike clk k userId b =
     save {PLikes} clk k
       (if userId \<notin> set (likes b) then b\<lparr>likes := likes b @ [userId]\<rparr>
        else b\<lparr>likes := remove1 userId (likes b)\<rparr>)"

definition new_comment :: "oid \<Rightarrow> string \<Rightarrow> date \<Rightarrow> comment" where
  \<comment> \<open>the subdocument pushed: content trimmed by its setter, defaults, timestamps at save\<close>
  "new_comment userId txt stamp =
     \<lparr>c_user = userId, c_content = trim txt, c_isEdited = False, c_editedAt = None,
      c_likes = [], c_replies = [], c_createdAt = Some stamp, c_updatedAt = Some stamp\<rparr>"

definition addComment :: "clock \<Rightarrow> nat \<Rightarrow> oid \<Rightarrow> string \<Rightarrow> blog \<Rightarrow> error + blog" where
  "addComment clk k userId txt b =
     save {PComments} clk k (b\<lparr>comments := comments b @ [new_comment userId txt (clk k)]\<rparr>)"

section \<open>Middleware (server/middleware/auth.js)\<close>

text \<open>
  A request carries a bearer token or none. \<open>jwt.verify\<close> is outside this development:
  the argument \<open>token\<close> is the user id a verified token decodes to, and \<open>None\<close> when
  the header is missing or verification throws.
\<close>

definition protect :: "db \<Rightarrow> oid option \<Rightarrow> error + (oid \<times> user)" where
  "protect d token =
     (case token of
        None \<Rightarrow> Inl NotAuthenticated
      | Some i \<Rightarrow>
          (case map_of (users d) i of
             None \<Rightarrow> Inl NotAuthenticated
           | Some u \<Rightarrow> if \<not> isActive u then Inl NotAuthenticated else Inr (i, u)))"

definition admin :: "oid \<times> user \<Rightarrow> error + (oid \<times> user)" where
  "admin req_user = (if role (snd req_user) = RoleAdmin then Inr req_user else Inl AccessDenied)"

definition optionalAuth :: "db \<Rightarrow> oid option \<Rightarrow> (oid \<times> user) option" where
  "optionalAuth d token =
     (case token of
        None \<Rightarrow> None
      | Some i \<Rightarrow> (case map_of (users d) i of None \<Rightarrow> None | Some u \<Rightarrow> Some (i, u)))"

text \<open>\<open>router.use(protect, admin)\<close> of the admin router.\<close>

definition protect_admin :: "db \<Rightarrow> oid option \<Rightarrow> error + (oid \<times> user)" where
  "protect_admin d token = (case protect d token of Inl e \<Rightarrow> Inl e | Inr ru \<Rightarrow> admin ru)"

section \<open>Blog routes (server/routes/blogs.js)\<close>

text \<open>
  \<open>res.json\<close> of a document that was loaded whole. The answer is the document; the
  virtual getters run on the way.
\<close>

definition respond :: "blog \<Rightarrow> db \<Rightarrow> (error + blog) \<times> db" where
  "respond b d = (case toJSON True b of Inl e \<Rightarrow> (Inl e, d) | Inr j \<Rightarrow> (Inr j, d))"

subsection \<open>GET /api/blogs\<close>

record list_query =
  q_page :: "int option"
  q_limit :: "int option"
  q_category :: "string option"
  q_search :: "string option"
  q_sort :: "string option"

text \<open>The \<open>$or\<close> of a filter holds the compiled search expression, as a predicate on strings.\<close>

record blog_filter =
  f_status :: status
  f_category :: "string option"
  f_search :: "(string \<Rightarrow> bool) option"

record listing =
  data :: "blog list"
  currentPage :: int
  totalPages :: int
  total :: nat
  hasNext :: bool
  hasPrev :: bool

definition in_range :: "int \<Rightarrow> int \<Rightarrow> int option \<Rightarrow> bool" where
  \<comment> \<open>\<open>.optional().isInt({ min, max })\<close>\<close>
  "in_range lo hi v = (case v of None \<Rightarrow> True | Some n \<Rightarrow> lo \<le> n \<and> n \<le> hi)"

definition at_least :: "int \<Rightarrow> int option \<Rightarrow> bool" where
  \<comment> \<open>\<open>.optional().isInt({ min })\<close>\<close>
  "at_least lo v = (case v of None \<Rightarrow> True | Some n \<Rightarrow> lo \<le> n)"

definition valid_sort :: "string option \<Rightarrow> bool" where
  "valid_sort v = (case v of None \<Rightarrow> True | Some s \<Rightarrow> s \<in> set [''latest'', ''popular'', ''trending''])"

definition parseInt_or :: "int option \<Rightarrow> int \<Rightarrow> int" where
  \<comment> \<open>\<open>parseInt(x) || dflt\<close>: the integer read becomes a double; NaN (absent) and 0 are falsy\<close>
  "parseInt_or v dflt = (case v of None \<Rightarrow> dflt | Some n \<Rightarrow> if fl_int n = 0 then dflt else fl_int n)"

definition truthy :: "string option \<Rightarrow> string option" where
  \<comment> \<open>\<open>if (req.query.x)\<close>: present and not empty\<close>
  "truthy v = (case v of None \<Rightarrow> None | Some s \<Rightarrow> if s = [] then None else Some s)"

text \<open>
  The regular-expression engine is a parameter: \<open>regexp pat\<close> is \<open>None\<close> when
  \<open>new RegExp(pat, 'i')\<close> throws, and otherwise the predicate that says which strings
  the expression matches.
\<close>

definition compile_search ::
  "(string \<Rightarrow> (string \<Rightarrow> bool) option) \<Rightarrow> string option \<Rightarrow> (string \<Rightarrow> bool) option option" where
  "compile_search regexp v =
     (case truthy v of
        None \<Rightarrow> Some None
      | Some pat \<Rightarrow> (case regexp pat of None \<Rightarrow> None | Some m \<Rightarrow> Some (Some m)))"

text \<open>Whether a document satisfies a filter.\<close>

definition matches :: "blog_filter \<Rightarrow> blog \<Rightarrow> bool" where
  "matches f b =
     (status b = f_status f
      \<and> (case f_category f of None \<Rightarrow> True | Some c \<Rightarrow> category b = c)
      \<and> (case f_search f of
           None \<Rightarrow> True
         | Some m \<Rightarrow> m (title b) \<or> m (content b) \<or> list_ex m (tags b)))"

definition sort_keys :: "string option \<Rightarrow> (string \<times> int) list" where
  "sort_keys v =
     (if v = Some ''popular'' then [(''views'', -1), (''likes.length'', -1)]
      else if v = Some ''trending''
        then [(''analytics.uniqueVisitors'', -1), (''likes.length'', -1), (''comments.length'', -1)]
      else [(''publishedAt'', -1)])"

text \<open>
  The listing. The ordering the database applies for a sort document is the parameter
  \<open>order_by\<close>. The database refuses a skip that is not below \<open>2^63\<close>. The documents of
  the page are selected without their content (\<open>.select('-content')\<close>), and \<open>res.json\<close>
  serialises them. \<open>Math.ceil(total / limit)\<close> is the ceiling of the exact quotient,
  which is what the double gives for any collection below \<open>2^48\<close> documents.
\<close>

definition list_blogs ::
  "(string \<Rightarrow> (string \<Rightarrow> bool) option) \<Rightarrow> ((string \<times> int) list \<Rightarrow> blog list \<Rightarrow> blog list)
     \<Rightarrow> list_query \<Rightarrow> db \<Rightarrow> error + listing" where
  "list_blogs regexp order_by q d =
     (if \<not> (at_least 1 (q_page q) \<and> in_range 1 50 (q_limit q) \<and> valid_sort (q_sort q))
      then Inl ValidationFailed
      else
        let page = parseInt_or (q_page q) 1;
            limit = parseInt_or (q_limit q) 10;
            skip = fl_int (fl_int (page - 1) * limit)
        in case compile_search regexp (q_search q) of
             None \<Rightarrow> Inl ServerError
           | Some search \<Rightarrow>
               if 2 ^ 63 \<le> skip then Inl ServerError
               else
                 let flt = \<lparr>f_status = Published, f_category = truthy (q_category q),
                            f_search = search\<rparr>;
                     found = filter (matches flt) (map snd (blogs d));
                     page_docs = take (nat limit)
                                   (drop (nat skip) (order_by (sort_keys (q_sort q)) found));
                     total = length found;
                     totalPages = \<lceil>real total / real_of_int limit\<rceil>
                 in case toJSON_all False page_docs of
                      Inl e \<Rightarrow> Inl e
                    | Inr docs \<Rightarrow>
                        Inr \<lparr>data = docs, currentPage = page, totalPages = totalPages,
                             total = total, hasNext = (page < totalPages),
                             hasPrev = (page > 1)\<rparr>)"

subsection \<open>GET /api/blogs/trending\<close>

text \<open>
  No validator guards this route: \<open>limit\<close> is the integer \<open>parseInt\<close> reads from the
  parameter, if it reads one. The driver takes a negative limit for its absolute value.
\<close>

definition get_trending ::
  "((string \<times> int) list \<Rightarrow> blog list \<Rightarrow> blog list) \<Rightarrow> int option \<Rightarrow> db \<Rightarrow> error + blog list" where
  "get_trending order_by q_lim d =
     (let limit = parseInt_or q_lim 10
      in if 2 ^ 63 \<le> \<bar>limit\<bar> then Inl ServerError
         else toJSON_all False
                (take (nat \<bar>limit\<bar>)
                   (order_by (sort_keys (Some ''trending''))
                      (filter (\<lambda>b. status b = Published) (map snd (blogs d))))))"

subsection \<open>GET /api/blogs/:slug\<close>

definition get_blog_by_slug :: "oid option \<Rightarrow> string \<Rightarrow> clock \<Rightarrow> db \<Rightarrow> (error + blog) \<times> db" where
  "get_blog_by_slug token s clk d =
     (case find (\<lambda>(i, b). slug b = Some s \<and> status b = Published) (blogs d) of
        None \<Rightarrow> (Inl NotFound, d)
      | Some (i, b) \<Rightarrow>
          (case optionalAuth d token of
             None \<Rightarrow> respond b d
           | Some req_user \<Rightarrow>
               (case incrementViews clk 0 b of
                  Inl e \<Rightarrow> (Inl e, d)
                | Inr b' \<Rightarrow> respond b' (d\<lparr>blogs := AList.update i b' (blogs d)\<rparr>))))"

text \<open>
  The router tries \<open>/trending\<close> before \<open>/:slug\<close>, so a \<open>GET\<close> for the one path segment
  \<open>trending\<close> never reaches the handler above.
\<close>

datatype answer = OneBlog blog | ManyBlogs "blog list"

definition get_segment ::
  "((string \<times> int) list \<Rightarrow> blog list \<Rightarrow> blog list) \<Rightarrow> oid option \<Rightarrow> string \<Rightarrow> int option
     \<Rightarrow> clock \<Rightarrow> db \<Rightarrow> (error + answer) \<times> db" where
  "get_segment order_by token seg q_lim clk d =
     (if seg = ''trending''
      then (case get_trending order_by q_lim d of
              Inl e \<Rightarrow> (Inl e, d) | Inr docs \<Rightarrow> (Inr (ManyBlogs docs), d))
      else (case get_blog_by_slug token seg clk d of
              (Inl e, d') \<Rightarrow> (Inl e, d') | (Inr b, d') \<Rightarrow> (Inr (OneBlog b), d')))"

subsection \<open>POST /api/blogs\<close>

record create_body =
  n_title :: string
  n_content :: string
  n_excerpt :: string
  n_category :: string
  n_tags :: "string list option"
  n_featuredImage :: "string option"

text \<open>The URL check of express-validator is a parameter, \<open>isURL\<close>.\<close>

definition valid_create_body :: "(string \<Rightarrow> bool) \<Rightarrow> create_body \<Rightarrow> bool" where
  "valid_create_body isURL body =
     (length_between 10 200 (n_title body)
      \<and> 100 \<le> length (n_content body)
      \<and> length_between 10 300 (n_excerpt body)
      \<and> n_category body \<in> set categories
      \<and> (case n_tags body of None \<Rightarrow> True
          | Some ts \<Rightarrow> length ts \<le> 10 \<and> list_all (length_between 1 20) ts)
      \<and> (case n_featuredImage body of None \<Rightarrow> True | Some url \<Rightarrow> isURL url))"

definition new_blog :: "oid \<Rightarrow> create_body \<Rightarrow> blog" where
  \<comment> \<open>the document \<open>Blog.create\<close> builds: the given paths through their setters, the defaults\<close>
  "new_blog uid body =
     \<lparr>title = trim (n_title body), slug = None, content = n_content body,
      excerpt = n_excerpt body, author = uid, status = Pending, category = n_category body,
      tags = (case n_tags body of None \<Rightarrow> [] | Some ts \<Rightarrow> map trim ts),
      featuredImage = (case n_featuredImage body of None \<Rightarrow> [] | Some url \<Rightarrow> url),
      readTime = 0, views = 0, likes = [], comments = [], shares = 0,
      isFeatured = False, isTrending = False,
      publishedAt = None, approvedBy = None, approvedAt = None, rejectionReason = None,
      seo = \<lparr>metaTitle = None, metaDescription = None, seo_keywords = []\<rparr>,
      analytics = \<lparr>uniqueVisitors = 0, bounceRate = 0, avgTimeOnPage = 0\<rparr>,
      createdAt = None, updatedAt = None\<rparr>"

text \<open>
  \<open>Blog.create\<close> saves the new document: validation first, then the hooks, with every
  path the document was given counting as modified. The new \<open>_id\<close> is a parameter; the
  unique indexes on \<open>_id\<close> and on \<open>slug\<close> refuse a second document with the same id or
  slug. The handler then loads the document again and answers it.
\<close>

definition create_blog ::
  "(string \<Rightarrow> bool) \<Rightarrow> oid option \<Rightarrow> clock \<Rightarrow> oid \<Rightarrow> create_body \<Rightarrow> db \<Rightarrow> (error + blog) \<times> db" where
  "create_blog isURL token clk new_id body d =
     (case protect d token of
        Inl e \<Rightarrow> (Inl e, d)
      | Inr (uid, u) \<Rightarrow>
          if \<not> valid_create_body isURL body then (Inl ValidationFailed, d)
          else
            (case save_new {PTitle, PContent, PStatus, POther} clk 0 (new_blog uid body) of
               Inl e \<Rightarrow> (Inl e, d)
             | Inr b \<Rightarrow>
                 (case map_of (blogs d) new_id of
                    Some other \<Rightarrow> (Inl DuplicateKey, d)
                  | None \<Rightarrow>
                      if list_ex (\<lambda>(i, b'). slug b' = slug b) (blogs d)
                      then (Inl DuplicateKey, d)
                      else respond b (d\<lparr>blogs := blogs d @ [(new_id, b)]\<rparr>))))"

subsection \<open>PUT /api/blogs/:id\<close>

text \<open>
  The handler hands the request body to \<open>findByIdAndUpdate\<close> as it is. A body that is
  a JSON object sets the paths it names, and it may name any path of the schema. A body
  that is a JSON array is an update pipeline, which the database runs on the stored
  document; what a pipeline makes of a document is the function the constructor carries.
\<close>

record update_body =
  u_title :: "string option"
  u_slug :: "string option"
  u_content :: "string option"
  u_excerpt :: "string option"
  u_author :: "oid option"
  u_status :: "string option"
  u_category :: "string option"
  u_tags :: "string list option"
  u_featuredImage :: "string option"
  u_readTime :: "nat option"
  u_views :: "nat option"
  u_likes :: "oid list option"
  u_comments :: "comment list option"
  u_shares :: "nat option"
  u_isFeatured :: "bool option"
  u_isTrending :: "bool option"
  u_publishedAt :: "date option"
  u_approvedBy :: "oid option"
  u_approvedAt :: "date option"
  u_rejectionReason :: "string option"
  u_seo :: "seo option"
  u_analytics :: "analytics option"

datatype put_body = ObjectBody update_body | PipelineBody "blog \<Rightarrow> error + blog"

text \<open>
  The validators of the route look the six paths up in the body; in an array they find
  none, and each of them is optional.
\<close>

definition valid_update_body :: "(string \<Rightarrow> bool) \<Rightarrow> put_body \<Rightarrow> bool" where
  "valid_update_body isURL body =
     (case body of
        PipelineBody f \<Rightarrow> True
      | ObjectBody u \<Rightarrow>
          ((case u_title u of None \<Rightarrow> True | Some t \<Rightarrow> length_between 10 200 t)
           \<and> (case u_content u of None \<Rightarrow> True | Some c \<Rightarrow> 100 \<le> length c)
           \<and> (case u_excerpt u of None \<Rightarrow> True | Some e \<Rightarrow> length_between 10 300 e)
           \<and> (case u_category u of None \<Rightarrow> True | Some c \<Rightarrow> c \<in> set categories)
           \<and> (case u_tags u of None \<Rightarrow> True | Some ts \<Rightarrow> length ts \<le> 10)
           \<and> (case u_featuredImage u of None \<Rightarrow> True | Some url \<Rightarrow> isURL url)))"

text \<open>
  \<open>req.body.status = 'pending'\<close>: on an object the key is set; on an array it is a
  property beside the stages, which is not part of the pipeline.
\<close>

definition set_status_pending :: "put_body \<Rightarrow> put_body" where
  "set_status_pending body =
     (case body of
        ObjectBody u \<Rightarrow> ObjectBody (u\<lparr>u_status := Some ''pending''\<rparr>)
      | PipelineBody f \<Rightarrow> PipelineBody f)"

definition status_of_string :: "string \<Rightarrow> status option" where
  "status_of_string s =
     map_of [(''draft'', Draft), (''pending'', Pending), (''published'', Published),
             (''rejected'', Rejected), (''hidden'', Hidden)] s"

definition or_else :: "'a option \<Rightarrow> 'a \<Rightarrow> 'a" where
  "or_else v old = (case v of None \<Rightarrow> old | Some x \<Rightarrow> x)"

definition keep_or :: "'a option \<Rightarrow> 'a option \<Rightarrow> 'a option" where
  \<comment> \<open>an optional path of the document: the value the body sets, else the one stored\<close>
  "keep_or v old = (case v of None \<Rightarrow> old | Some x \<Rightarrow> Some x)"

definition cast_comment :: "comment \<Rightarrow> comment" where
  "cast_comment c =
     c\<lparr>c_content := trim (c_content c),
       c_replies := map (\<lambda>r. r\<lparr>r_content := trim (r_content r)\<rparr>) (c_replies c)\<rparr>"

text \<open>Casting an update runs the setters of the paths it names.\<close>

definition cast_update :: "update_body \<Rightarrow> update_body" where
  "cast_update u =
     u\<lparr>u_title := map_option trim (u_title u),
       u_tags := map_option (map trim) (u_tags u),
       u_comments := map_option (map cast_comment) (u_comments u)\<rparr>"

text \<open>\<open>runValidators: true\<close>: the validators of each path the update names.\<close>

definition update_valid :: "update_body \<Rightarrow> bool" where
  "update_valid u =
     ((case u_title u of None \<Rightarrow> True | Some t \<Rightarrow> ok_title t)
      \<and> (case u_slug u of None \<Rightarrow> True | Some s \<Rightarrow> s \<noteq> [])
      \<and> (case u_content u of None \<Rightarrow> True | Some c \<Rightarrow> ok_content c)
      \<and> (case u_excerpt u of None \<Rightarrow> True | Some e \<Rightarrow> ok_excerpt e)
      \<and> (case u_status u of None \<Rightarrow> True | Some s \<Rightarrow> status_of_string s \<noteq> None)
      \<and> (case u_category u of None \<Rightarrow> True | Some c \<Rightarrow> ok_category c)
      \<and> (case u_tags u of None \<Rightarrow> True | Some ts \<Rightarrow> ok_tags ts)
      \<and> (case u_comments u of None \<Rightarrow> True | Some cs \<Rightarrow> ok_comments cs)
      \<and> (case u_rejectionReason u of None \<Rightarrow> True | Some r \<Rightarrow> length r \<le> 500)
      \<and> (case u_seo u of None \<Rightarrow> True | Some s \<Rightarrow> ok_seo s))"

definition set_paths :: "update_body \<Rightarrow> blog \<Rightarrow> blog" where
  "set_paths u b =
     b\<lparr>title := or_else (u_title u) (title b),
       slug := keep_or (u_slug u) (slug b),
       content := or_else (u_content u) (content b),
       excerpt := or_else (u_excerpt u) (excerpt b),
       author := or_else (u_author u) (author b),
       status := or_else (case u_status u of None \<Rightarrow> None | Some s \<Rightarrow> status_of_string s)
                   (status b),
       category := or_else (u_category u) (category b),
       tags := or_else (u_tags u) (tags b),
       featuredImage := or_else (u_featuredImage u) (featuredImage b),
       readTime := or_else (u_readTime u) (readTime b),
       views := or_else (u_views u) (views b),
       likes := or_else (u_likes u) (likes b),
       comments := or_else (u_comments u) (comments b),
       shares := or_else (u_shares u) (shares b),
       isFeatured := or_else (u_isFeatured u) (isFeatured b),
       isTrending := or_else (u_isTrending u) (isTrending b),
       publishedAt := keep_or (u_publishedAt u) (publishedAt b),
       approvedBy := keep_or (u_approvedBy u) (approvedBy b),
       approvedAt := keep_or (u_approvedAt u) (approvedAt b),
       rejectionReason := keep_or (u_rejectionReason u) (rejectionReason b),
       seo := or_else (u_seo u) (seo b),
       analytics := or_else (u_analytics u) (analytics b)\<rparr>"

text \<open>
  \<open>findByIdAndUpdate(id, body, { new: true, runValidators: true })\<close> on the document
  found. No save hook runs; the timestamps option adds \<open>updatedAt\<close> to the update, to an
  object and to a pipeline alike.
\<close>

definition findByIdAndUpdate :: "clock \<Rightarrow> nat \<Rightarrow> put_body \<Rightarrow> blog \<Rightarrow> error + blog" where
  "findByIdAndUpdate clk k body b =
     (case body of
        PipelineBody f \<Rightarrow>
          (case f b of Inl e \<Rightarrow> Inl e | Inr b' \<Rightarrow> Inr (b'\<lparr>updatedAt := Some (clk k)\<rparr>))
      | ObjectBody u \<Rightarrow>
          let c = cast_update u
          in if \<not> update_valid c then Inl SchemaValidationError
             else Inr ((set_paths c b)\<lparr>updatedAt := Some (clk k)\<rparr>))"

definition update_blog ::
  "(string \<Rightarrow> bool) \<Rightarrow> oid option \<Rightarrow> clock \<Rightarrow> oid \<Rightarrow> put_body \<Rightarrow> db \<Rightarrow> (error + blog) \<times> db" where
  "update_blog isURL token clk bid body d =
     (case protect d token of
        Inl e \<Rightarrow> (Inl e, d)
      | Inr (uid, u) \<Rightarrow>
          if \<not> valid_update_body isURL body then (Inl ValidationFailed, d)
          else
            (case map_of (blogs d) bid of
               None \<Rightarrow> (Inl NotFound, d)
             | Some b \<Rightarrow>
                 if role u \<noteq> RoleAdmin \<and> author b \<noteq> uid then (Inl AccessDenied, d)
                 else
                   let body' = (if status b = Published then set_status_pending body else body)
                   in (case findByIdAndUpdate clk 0 body' b of
                         Inl e \<Rightarrow> (Inl e, d)
                       | Inr b' \<Rightarrow>
                           if slug b' \<noteq> slug b
                              \<and> list_ex (\<lambda>(i, x). i \<noteq> bid \<and> slug x = slug b') (blogs d)
                           then (Inl DuplicateKey, d)
                           else respond b' (d\<lparr>blogs := AList.update bid b' (blogs d)\<rparr>))))"

subsection \<open>POST /api/blogs/:id/like\<close>

definition like_blog :: "oid option \<Rightarrow> clock \<Rightarrow> oid \<Rightarrow> db \<Rightarrow> (error + (nat \<times> bool)) \<times> db" where
  \<comment> \<open>the answer is \<open>likesCount\<close> and \<open>isLiked\<close>\<close>
  "like_blog token clk bid d =
     (case protect d token of
        Inl e \<Rightarrow> (Inl e, d)
      | Inr (uid, u) \<Rightarrow>
          (case map_of (blogs d) bid of
             None \<Rightarrow> (Inl NotFound, d)
           | Some b \<Rightarrow>
               if status b \<noteq> Published then (Inl InvalidState, d)
               else
                 (case toggleLike clk 0 uid b of
                    Inl e \<Rightarrow> (Inl e, d)
                  | Inr b' \<Rightarrow>
                      (Inr (length (likes b'), uid \<in> set (likes b')),
                       d\<lparr>blogs := AList.update bid b' (blogs d)\<rparr>))))"

subsection \<open>POST /api/blogs/:id/comments\<close>

definition comment_blog ::
  "oid option \<Rightarrow> clock \<Rightarrow> oid \<Rightarrow> string \<Rightarrow> db \<Rightarrow> (error + blog) \<times> db" where
  "comment_blog token clk bid txt d =
     (case protect d token of
        Inl e \<Rightarrow> (Inl e, d)
      | Inr (uid, u) \<Rightarrow>
          if \<not> length_between 1 1000 txt then (Inl ValidationFailed, d)
          else
            (case map_of (blogs d) bid of
               None \<Rightarrow> (Inl NotFound, d)
             | Some b \<Rightarrow>
                 if status b \<noteq> Published then (Inl InvalidState, d)
                 else
                   (case addComment clk 0 uid txt b of
                      Inl e \<Rightarrow> (Inl e, d)
                    | Inr b' \<Rightarrow> respond b' (d\<lparr>blogs := AList.update bid b' (blogs d)\<rparr>))))"

section \<open>Admin routes (server/routes/admin.js)\<close>

text \<open>
  A value of a JSON body, as far as the validators of these routes tell values apart.
\<close>

datatype json = JString string | JNumber int | JBool bool | JNull

definition optional_isString :: "json option \<Rightarrow> bool" where
  "optional_isString v = (case v of None \<Rightarrow> True | Some (JString s) \<Rightarrow> True | Some other \<Rightarrow> False)"

subsection \<open>PUT /api/admin/blogs/:id/approve\<close>

text \<open>
  The handler reads the clock for \<open>publishedAt\<close> and again for \<open>approvedAt\<close>, then
  saves. The notification e-mail after the save cannot fail the request and is left out.
\<close>

definition approve_blog ::
  "oid option \<Rightarrow> clock \<Rightarrow> oid \<Rightarrow> json option \<Rightarrow> db \<Rightarrow> (error + blog) \<times> db" where
  "approve_blog token clk bid feedback d =
     (case protect_admin d token of
        Inl e \<Rightarrow> (Inl e, d)
      | Inr (uid, u) \<Rightarrow>
          if \<not> optional_isString feedback then (Inl ValidationFailed, d)
          else
            (case map_of (blogs d) bid of
               None \<Rightarrow> (Inl NotFound, d)
             | Some b \<Rightarrow>
                 if status b \<noteq> Pending then (Inl InvalidState, d)
                 else
                   (case save {PStatus, PPublishedAt, PApprovedBy, PApprovedAt} clk 2
                           (b\<lparr>status := Published, publishedAt := Some (clk 0),
                              approvedBy := Some uid, approvedAt := Some (clk 1)\<rparr>) of
                      Inl e \<Rightarrow> (Inl e, d)
                    | Inr b' \<Rightarrow> respond b' (d\<lparr>blogs := AList.update bid b' (blogs d)\<rparr>))))"

subsection \<open>PUT /api/admin/blogs/:id/reject\<close>

definition reject_blog ::
  "oid option \<Rightarrow> clock \<Rightarrow> oid \<Rightarrow> string \<Rightarrow> db \<Rightarrow> (error + blog) \<times> db" where
  "reject_blog token clk bid reason d =
     (case protect_admin d token of
        Inl e \<Rightarrow> (Inl e, d)
      | Inr (uid, u) \<Rightarrow>
          if \<not> length_between 10 500 reason then (Inl ValidationFailed, d)
          else
            (case map_of (blogs d) bid of
               None \<Rightarrow> (Inl NotFound, d)
             | Some b \<Rightarrow>
                 if status b \<noteq> Pending then (Inl InvalidState, d)
                 else
                   (case save {PStatus, PRejectionReason} clk 0
                           (b\<lparr>status := Rejected, rejectionReason := Some reason\<rparr>) of
                      Inl e \<Rightarrow> (Inl e, d)
                    | Inr b' \<Rightarrow> respond b' (d\<lparr>blogs := AList.update bid b' (blogs d)\<rparr>))))"

subsection \<open>PUT /api/admin/blogs/:id/toggle-visibility\<close>

definition toggle_visibility :: "oid option \<Rightarrow> clock \<Rightarrow> oid \<Rightarrow> db \<Rightarrow> (error + blog) \<times> db" where
  "toggle_visibility token clk bid d =
     (case protect_admin d token of
        Inl e \<Rightarrow> (Inl e, d)
      | Inr (uid, u) \<Rightarrow>
          (case map_of (blogs d) bid of
             None \<Rightarrow> (Inl NotFound, d)
           | Some b \<Rightarrow>
               if status b \<noteq> Published then (Inl InvalidState, d)
               else
                 let b1 = b\<lparr>status := (if status b = Published then Hidden else Published)\<rparr>;
                     b2 = (if status b1 = Published then b1\<lparr>publishedAt := Some (clk 0)\<rparr> else b1)
                 in (case save (if status b1 = Published then {PStatus, PPublishedAt}
                                else {PStatus}) clk (if status b1 = Published then 1 else 0) b2 of
                       Inl e \<Rightarrow> (Inl e, d)
                     | Inr b' \<Rightarrow> respond b' (d\<lparr>blogs := AList.update bid b' (blogs d)\<rparr>))))"

subsection \<open>PUT /api/admin/users/:id/toggle-status\<close>

definition toggle_status :: "oid option \<Rightarrow> oid \<Rightarrow> db \<Rightarrow> (error + user) \<times> db" where
  "toggle_status token target d =
     (case protect_admin d token of
        Inl e \<Rightarrow> (Inl e, d)
      | Inr (uid, u) \<Rightarrow>
          (case map_of (users d) target of
             None \<Rightarrow> (Inl NotFound, d)
           | Some t \<Rightarrow>
               if target = uid then (Inl OwnAccount, d)
               else
                 let t' = t\<lparr>isActive := \<not> isActive t\<rparr>
                 in (Inr t', d\<lparr>users := AList.update target t' (users d)\<rparr>)))"

subsection \<open>PUT /api/admin/users/:id/role\<close>

definition role_of_string :: "string \<Rightarrow> role option" where
  "role_of_string s = map_of [(''user'', RoleUser), (''admin'', RoleAdmin)] s"

definition change_role :: "oid option \<Rightarrow> oid \<Rightarrow> string \<Rightarrow> db \<Rightarrow> (error + user) \<times> db" where
  "change_role token target r d =
     (case protect_admin d token of
        Inl e \<Rightarrow> (Inl e, d)
      | Inr (uid, u) \<Rightarrow>
          (case role_of_string r of
             None \<Rightarrow> (Inl ValidationFailed, d)
           | Some new_role \<Rightarrow>
               (case map_of (users d) target of
                  None \<Rightarrow> (Inl NotFound, d)
                | Some t \<Rightarrow>
                    if target = uid then (Inl OwnAccount, d)
                    else
                      let t' = t\<lparr>role := new_role\<rparr>
                      in (Inr t', d\<lparr>users := AList.update target t' (users d)\<rparr>))))"

text \<open>No two neighbouring characters of a string are both hyphens.\<close>

fun hyphens_single :: "string \<Rightarrow> bool" where
  "hyphens_single (a # b # cs) = (\<not> (a = CHR ''-'' \<and> b = CHR ''-'') \<and> hyphens_single (b # cs))"
| "hyphens_single cs = True"

section \<open>Example data\<close>

text \<open>
  A database for the concrete instances below: an admin (1) and two ordinary users (2
  and 3), and five blogs of user 2, each with its own slug and a content of a hundred
  characters, one in each of the five statuses. Every blog
  was published once before, at time 5, and has a like of user 2.
\<close>

definition ex_blog :: "status \<Rightarrow> string \<Rightarrow> blog" where
  "ex_blog st sl =
     \<lparr>title = ''A brand new beginning for all'', slug = Some sl,
      content = replicate 100 CHR ''x'', excerpt = ''short excerpt text here'',
      author = 2, status = st, category = ''Technology'', tags = [], featuredImage = [],
      readTime = 1, views = 3, likes = [2], comments = [], shares = 0,
      isFeatured = False, isTrending = False, publishedAt = Some 5, approvedBy = Some 1,
      approvedAt = Some 5, rejectionReason = None,
      seo = \<lparr>metaTitle = None, metaDescription = None, seo_keywords = []\<rparr>,
      analytics = \<lparr>uniqueVisitors = 0, bounceRate = 0, avgTimeOnPage = 0\<rparr>,
      createdAt = Some 1, updatedAt = Some 5\<rparr>"

definition ex_admin :: user where
  "ex_admin = \<lparr>role = RoleAdmin, isActive = True\<rparr>"

definition ex_user :: user where
  "ex_user = \<lparr>role = RoleUser, isActive = True\<rparr>"

definition ex_db :: db where
  "ex_db =
     \<lparr>users = [(1, ex_admin), (2, ex_user), (3, ex_user)],
      blogs = [(10, ex_blog Draft ''a-draft''), (11, ex_blog Pending ''a-pending-blog''),
               (12, ex_blog Published ''a-published-blog''), (13, ex_blog Hidden ''a-hidden-blog''),
               (14, ex_blog Rejected ''a-rejected-blog'')]\<rparr>"

text \<open>The clock of the examples: the readings of a request are 9, 10, 11 and so on.\<close>

definition ex_clock :: clock where
  "ex_clock k = 9 + k"

text \<open>
  The pipeline \<open>[{ $set: { title: 'An entirely different title' } }]\<close>, as what it
  makes of a document.
\<close>

definition ex_pipeline :: "blog \<Rightarrow> error + blog" where
  "ex_pipeline b = Inr (b\<lparr>title := ''An entirely different title''\<rparr>)"

text \<open>
  A JSON object that names no path, and the body \<open>{ likes: [2, 1, 2] }\<close>, which lists
  user 2 twice.
\<close>

definition no_paths :: update_body where
  "no_paths =
     \<lparr>u_title = None, u_slug = None, u_content = None, u_excerpt = None, u_author = None,
      u_status = None, u_category = None, u_tags = None, u_featuredImage = None,
      u_readTime = None, u_views = None, u_likes = None, u_comments = None, u_shares = None,
      u_isFeatured = None, u_isTrending = None, u_publishedAt = None, u_approvedBy = None,
      u_approvedAt = None, u_rejectionReason = None, u_seo = None, u_analytics = None\<rparr>"

definition ex_likes_body :: put_body where
  "ex_likes_body = ObjectBody (no_paths\<lparr>u_likes := Some [2, 1, 2]\<rparr>)"

text \<open>A database whose published blog lists the like of user 2 twice.\<close>

definition ex_dup_db :: db where
  "ex_dup_db =
     \<lparr>users = [(1, ex_admin), (2, ex_user), (3, ex_user)],
      blogs = [(12, (ex_blog Published ''a-published-blog'')\<lparr>likes := [2, 1, 2]\<rparr>)]\<rparr>"

text \<open>The body of a request that creates a blog, and the query of a plain \<open>GET /api/blogs\<close>.\<close>

definition ex_new_body :: create_body where
  "ex_new_body =
     \<lparr>n_title = ''Ten Tips & Tricks for Isabelle/HOL'', n_content = replicate 100 CHR ''x'',
      n_excerpt = ''short excerpt text here'', n_category = ''Technology'',
      n_tags = Some [''proof''], n_featuredImage = None\<rparr>"

definition ex_query :: list_query where
  "ex_query = \<lparr>q_page = None, q_limit = None, q_category = None, q_search = None,
                q_sort = None\<rparr>"

section \<open>Properties\<close>

subsection \<open>Middleware, answers, numbers\<close>

lemma protect_Some:
  "map_of (users d) a = Some u \<Longrightarrow> isActive u \<Longrightarrow> protect d (Some a) = Inr (a, u)"
  by (simp add: protect_def)

lemma protect_admin_Some:
  "map_of (users d) a = Some u \<Longrightarrow> isActive u \<Longrightarrow> role u = RoleAdmin
     \<Longrightarrow> protect_admin d (Some a) = Inr (a, u)"
  by (simp add: protect_admin_def protect_def admin_def)

lemma respond_eq: "respond b d = (Inr b, d)"
  by (simp add: respond_def toJSON_def estimatedReadTime_def Let_def)

text \<open>Rounding: exact up to \<open>2^53\<close>, and the first number that is not kept.\<close>

lemma bits_pos: "0 < n \<Longrightarrow> bits n = Suc (bits (n div 2))"
  by (cases n) simp_all

lemma bits_numeral:
  "bits (numeral (Num.Bit0 k)) = Suc (bits (numeral k))"
  "bits (numeral (Num.Bit1 k)) = Suc (bits (numeral k))"
  "bits 1 = 1"
  by (simp_all add: bits_pos)



lemma fl_above_limit: "fl (2 ^ 53 + 1) = 2 ^ 53"
  by (simp add: fl_def bits_numeral Let_def)


lemma parseInt_rounds: "parseInt_or (Some (2 ^ 53 + 1)) 1 = 2 ^ 53"
  by (simp add: parseInt_or_def fl_int_def fl_def bits_numeral Let_def)

text \<open>Every example blog passes the validators of the schema.\<close>

lemma ex_blog_valid: "sl \<noteq> [] \<Longrightarrow> valid_doc (ex_blog st sl)"
  by (simp add: valid_doc_def ex_blog_def ok_title_def ok_slug_def ok_content_def ok_excerpt_def
        ok_category_def ok_tags_def ok_reason_def ok_seo_def ok_comments_def length_between_def
        categories_def)

subsection \<open>Moderation needs a pending blog\<close>

text \<open>
  Whoever calls and whatever the body holds, approve and reject end in an error and
  write nothing when the blog is not pending.
\<close>

lemma failed_moderation_keeps_db:
  assumes "map_of (blogs d) bid = Some b" and "status b \<noteq> Pending"
  shows "isl (fst (approve_blog token clk bid feedback d))
       \<and> snd (approve_blog token clk bid feedback d) = d
       \<and> isl (fst (reject_blog token clk bid reason d))
       \<and> snd (reject_blog token clk bid reason d) = d"
  using assms
  by (auto simp: approve_blog_def reject_blog_def split: sum.splits prod.splits)

text \<open>
  C1. For a blog whose status is not pending, approve and reject, called by an admin
  with a body that passes the route's validators, both answer \<open>InvalidState\<close>, and the
  database, hence the blog with its status and every other field, is as before.
\<close>

theorem approve_reject_require_pending:
  assumes "map_of (users d) a = Some u" and "isActive u" and "role u = RoleAdmin"
    and "map_of (blogs d) bid = Some b" and "status b \<noteq> Pending"
    and "optional_isString feedback" and "length_between 10 500 reason"
  shows "approve_blog (Some a) clk bid feedback d = (Inl InvalidState, d)
       \<and> reject_blog (Some a) clk bid reason d = (Inl InvalidState, d)"
  using assms by (simp add: approve_blog_def reject_blog_def protect_admin_Some)

text \<open>
  Witness for C1: the admin addresses both routes to the draft blog 10 of the example
  database.
\<close>

theorem approve_reject_require_pending_witness:
  "map_of (users ex_db) 1 = Some ex_admin \<and> isActive ex_admin \<and> role ex_admin = RoleAdmin
   \<and> map_of (blogs ex_db) 10 = Some (ex_blog Draft ''a-draft'')
   \<and> status (ex_blog Draft ''a-draft'') \<noteq> Pending
   \<and> optional_isString None
   \<and> length_between 10 500 ''Needs more sources and citations''
   \<and> approve_blog (Some 1) ex_clock 10 None ex_db = (Inl InvalidState, ex_db)
   \<and> reject_blog (Some 1) ex_clock 10 ''Needs more sources and citations'' ex_db
       = (Inl InvalidState, ex_db)"
  using approve_reject_require_pending [of ex_db 1 ex_admin 10
      "ex_blog Draft ''a-draft''" None "''Needs more sources and citations''" ex_clock]
  by (simp add: ex_db_def ex_blog_def ex_admin_def optional_isString_def length_between_def)

subsection \<open>Visibility\<close>

lemma toggle_visibility_not_published:
  assumes "map_of (blogs d) bid = Some b" and "status b \<noteq> Published"
  shows "isl (fst (toggle_visibility token clk bid d))
       \<and> snd (toggle_visibility token clk bid d) = d"
  using assms by (auto simp: toggle_visibility_def split: sum.splits prod.splits)

text \<open>
  C2. The claim is that toggling the visibility of a hidden blog publishes it again and
  refreshes its publish timestamp. The handler answers \<open>InvalidState\<close> for the hidden
  blog 13 of the example database, called by the admin, and leaves it hidden.
\<close>

theorem toggle_visibility_hidden_stuck:
  "map_of (blogs ex_db) 13 = Some (ex_blog Hidden ''a-hidden-blog'')
   \<and> status (ex_blog Hidden ''a-hidden-blog'') = Hidden
   \<and> toggle_visibility (Some 1) ex_clock 13 ex_db = (Inl InvalidState, ex_db)"
  by (simp add: toggle_visibility_def protect_admin_def protect_def admin_def
        ex_db_def ex_blog_def ex_admin_def)

subsection \<open>Editing a published blog\<close>

text \<open>
  C3. The claim is that an edit by the author or an admin leaves a published blog
  pending. User 2 sends an update pipeline that sets a new title to their published blog
  12: the handler's \<open>status\<close> is not part of the pipeline, the title is changed and the
  blog is still published.
\<close>

theorem update_pipeline_keeps_published:
  "map_of (users ex_db) 2 = Some ex_user \<and> isActive ex_user
   \<and> map_option author (map_of (blogs ex_db) 12) = Some 2
   \<and> map_option status (map_of (blogs ex_db) 12) = Some Published
   \<and> \<not> isl (fst (update_blog (\<lambda>url. True) (Some 2) ex_clock 12 (PipelineBody ex_pipeline) ex_db))
   \<and> map_option title
        (map_of (blogs (snd (update_blog (\<lambda>url. True) (Some 2) ex_clock 12
                               (PipelineBody ex_pipeline) ex_db))) 12)
       = Some ''An entirely different title''
   \<and> map_option status
        (map_of (blogs (snd (update_blog (\<lambda>url. True) (Some 2) ex_clock 12
                               (PipelineBody ex_pipeline) ex_db))) 12)
       = Some Published"
  by (simp add: update_blog_def protect_def valid_update_body_def set_status_pending_def
        findByIdAndUpdate_def ex_pipeline_def respond_eq ex_db_def ex_blog_def ex_user_def
        ex_clock_def update_conv' Let_def)

text \<open>
  With a JSON object for a body the handler's status does reach the update: whenever
  such an update of a published blog is carried out, the blog is pending afterwards.
  An update that ends in an error writes nothing.
\<close>

lemma update_object_demotes:
  assumes "map_of (blogs d) bid = Some b" and "status b = Published"
    and "update_blog isURL token clk bid (ObjectBody u) d = (Inr b', d')"
  shows "status b' = Pending \<and> map_of (blogs d') bid = Some b'"
  using assms
  by (auto simp: update_blog_def findByIdAndUpdate_def set_status_pending_def set_paths_def
        cast_update_def status_of_string_def or_else_def respond_eq update_conv' Let_def
        split: sum.splits prod.splits if_splits)

lemma update_failed_keeps_db:
  "update_blog isURL token clk bid body d = (Inl e, d') \<Longrightarrow> d' = d"
  by (auto simp: update_blog_def respond_eq Let_def split: sum.splits prod.splits if_splits option.splits)


subsection \<open>Likes\<close>

lemma valid_doc_likes [simp]: "valid_doc (b\<lparr>likes := l\<rparr>) = valid_doc b"
  by (simp add: valid_doc_def)

lemma toggleLike_valid:
  "valid_doc b \<Longrightarrow>
     toggleLike clk k uid b
       = Inr (b\<lparr>likes := (if uid \<notin> set (likes b) then likes b @ [uid] else remove1 uid (likes b)),
                updatedAt := Some (clk k)\<rparr>)"
  by (simp add: toggleLike_def save_def pre_save_def)

lemma like_blog_Published:
  assumes "map_of (users d) uid = Some u" and "isActive u"
    and "map_of (blogs d) bid = Some b" and "status b = Published" and "valid_doc b"
    and "b' = b\<lparr>likes := (if uid \<notin> set (likes b) then likes b @ [uid] else remove1 uid (likes b)),
                 updatedAt := Some (clk 0)\<rparr>"
  shows "like_blog (Some uid) clk bid d
           = (Inr (length (likes b'), uid \<in> set (likes b')),
              d\<lparr>blogs := AList.update bid b' (blogs d)\<rparr>)"
  using assms by (simp add: like_blog_def protect_Some toggleLike_valid)

text \<open>
  C4, as claimed, fails. The published blog of this database lists user 2 twice among its
  likes, \<open>[2, 1, 2]\<close>. Two likes by user 2 in a row remove both entries: the list is
  \<open>[1]\<close>, with other members and another length than before.
\<close>

theorem like_twice_duplicates:
  "map_of (users ex_dup_db) 2 = Some ex_user \<and> isActive ex_user
   \<and> map_option likes (map_of (blogs ex_dup_db) 12) = Some [2, 1, 2]
   \<and> map_option status (map_of (blogs ex_dup_db) 12) = Some Published
   \<and> map_option likes
        (map_of (blogs (snd (like_blog (Some 2) ex_clock 12
                               (snd (like_blog (Some 2) ex_clock 12 ex_dup_db))))) 12)
       = Some [1]
   \<and> set [1] \<noteq> set [2, 1, 2::nat] \<and> length [1::nat] \<noteq> length [2, 1, 2::nat]"
  by (simp add: like_blog_def protect_def toggleLike_def save_def pre_save_def valid_doc_def
        ok_title_def ok_slug_def ok_content_def ok_excerpt_def ok_category_def ok_tags_def
        ok_reason_def ok_seo_def ok_comments_def length_between_def categories_def
        ex_dup_db_def ex_blog_def ex_user_def update_conv' Let_def)

lemma count_le_1_remove1: "count_list xs x \<le> 1 \<Longrightarrow> x \<notin> set (remove1 x xs)"
  by (induction xs) (auto simp: count_list_0_iff split: if_splits)

lemma set_remove1_insert: "x \<in> set xs \<Longrightarrow> insert x (set (remove1 x xs)) = set xs"
  by (induction xs) auto

lemma count_list_remove1_other: "y \<noteq> x \<Longrightarrow> count_list (remove1 x xs) y = count_list xs y"
  by (induction xs) auto

lemma count_list_remove1_self:
  "x \<in> set xs \<Longrightarrow> count_list (remove1 x xs) x = count_list xs x - 1"
  by (induction xs) auto

text \<open>
  Such a list can be stored: the unfiltered update writes the path \<open>likes\<close> as the body
  has it. User 2 sends the body to their blog 12, the admin approves the blog again, and
  it is published with the like list \<open>[2, 1, 2]\<close>.
\<close>

lemma duplicate_likes_can_be_stored:
  "map_option likes
     (map_of (blogs (snd (approve_blog (Some 1) ex_clock 12 None
                            (snd (update_blog (\<lambda>url. True) (Some 2) ex_clock 12 ex_likes_body
                                    ex_db))))) 12)
     = Some [2, 1, 2]
   \<and> map_option status
     (map_of (blogs (snd (approve_blog (Some 1) ex_clock 12 None
                            (snd (update_blog (\<lambda>url. True) (Some 2) ex_clock 12 ex_likes_body
                                    ex_db))))) 12)
     = Some Published"
  by (simp add: update_blog_def approve_blog_def protect_admin_def protect_def admin_def
        optional_isString_def valid_update_body_def set_status_pending_def findByIdAndUpdate_def
        cast_update_def update_valid_def set_paths_def status_of_string_def or_else_def
        keep_or_def no_paths_def ex_likes_body_def save_def pre_save_def respond_eq valid_doc_def
        ok_title_def ok_slug_def ok_content_def ok_excerpt_def ok_category_def ok_tags_def
        ok_reason_def ok_seo_def ok_comments_def length_between_def categories_def
        ex_db_def ex_blog_def ex_admin_def ex_user_def update_conv' Let_def)

text \<open>
  C4, amended. Let an authenticated user like, twice in a row, a published blog that
  passes the validators of the schema and lists the user at most once; \<open>b1\<close> is the blog
  after the first call and \<open>b2\<close> after the second. The first call adds the user when
  absent and removes the entry when present, and touches no other entry; the second
  call brings the like list back to its original members and length; after either call
  the list holds the user at most once.
\<close>

theorem like_twice_restores:
  assumes "map_of (users d) uid = Some u" and "isActive u"
    and "map_of (blogs d) bid = Some b" and "status b = Published" and "valid_doc b"
    and "count_list (likes b) uid \<le> 1"
    and "d1 = snd (like_blog (Some uid) clk bid d)"
    and "d2 = snd (like_blog (Some uid) clk' bid d1)"
  shows "\<exists>b1 b2. map_of (blogs d1) bid = Some b1 \<and> map_of (blogs d2) bid = Some b2
           \<and> fst (like_blog (Some uid) clk bid d) = Inr (length (likes b1), uid \<in> set (likes b1))
           \<and> fst (like_blog (Some uid) clk' bid d1) = Inr (length (likes b2), uid \<in> set (likes b2))
           \<and> (uid \<in> set (likes b1)) = (uid \<notin> set (likes b))
           \<and> set (likes b1) - {uid} = set (likes b) - {uid}
           \<and> count_list (likes b1) uid \<le> 1
           \<and> set (likes b2) = set (likes b) \<and> length (likes b2) = length (likes b)
           \<and> count_list (likes b2) uid \<le> 1"
proof -
  define l1 where "l1 = (if uid \<notin> set (likes b) then likes b @ [uid] else remove1 uid (likes b))"
  define b1 where "b1 = b\<lparr>likes := l1, updatedAt := Some (clk 0)\<rparr>"
  define l2 where "l2 = (if uid \<notin> set l1 then l1 @ [uid] else remove1 uid l1)"
  define b2 where "b2 = b1\<lparr>likes := l2, updatedAt := Some (clk' 0)\<rparr>"
  have first: "like_blog (Some uid) clk bid d
      = (Inr (length (likes b1), uid \<in> set (likes b1)), d\<lparr>blogs := AList.update bid b1 (blogs d)\<rparr>)"
    using assms(1-5) by (rule like_blog_Published) (simp add: b1_def l1_def)
  then have d1: "d1 = d\<lparr>blogs := AList.update bid b1 (blogs d)\<rparr>"
    using assms(7) by simp
  have at1: "map_of (blogs d1) bid = Some b1" and users1: "map_of (users d1) uid = Some u"
    using assms(1) by (simp_all add: d1 update_conv')
  have st1: "status b1 = Published" and v1: "valid_doc b1"
    using assms(4,5) by (simp_all add: b1_def valid_doc_def)
  have second: "like_blog (Some uid) clk' bid d1
      = (Inr (length (likes b2), uid \<in> set (likes b2)), d1\<lparr>blogs := AList.update bid b2 (blogs d1)\<rparr>)"
    using users1 assms(2) at1 st1 v1 by (rule like_blog_Published) (simp add: b2_def l2_def b1_def)
  then have at2: "map_of (blogs d2) bid = Some b2"
    using assms(8) by (simp add: update_conv')
  have lk: "likes b1 = l1" "likes b2 = l2" by (simp_all add: b1_def b2_def)
  have mem1: "(uid \<in> set l1) = (uid \<notin> set (likes b))"
    using assms(6) count_le_1_remove1 [of "likes b" uid] by (simp add: l1_def)
  have others1: "set l1 - {uid} = set (likes b) - {uid}"
  proof (cases "uid \<in> set (likes b)")
    case True
    from set_remove1_insert [OF this] mem1 True show ?thesis by (auto simp: l1_def)
  next
    case False
    then show ?thesis by (auto simp: l1_def)
  qed
  have c1: "count_list l1 uid \<le> 1"
  proof (cases "uid \<in> set (likes b)")
    case True
    then have "count_list l1 uid = count_list (likes b) uid - 1"
      by (simp add: l1_def count_list_remove1_self)
    with assms(6) show ?thesis by simp
  next
    case False
    then show ?thesis by (simp add: l1_def)
  qed
  have l2_eq: "set l2 = set (likes b) \<and> length l2 = length (likes b) \<and> count_list l2 uid \<le> 1"
  proof (cases "uid \<in> set (likes b)")
    case True
    then have n: "uid \<notin> set l1" using mem1 by simp
    have "length (likes b) > 0" using True by (cases "likes b") auto
    moreover have "uid \<notin> set (remove1 uid (likes b))"
      using n True by (simp add: l1_def)
    then have "count_list (remove1 uid (likes b)) uid = 0"
      by (rule count_notin)
    ultimately show ?thesis
      using True n set_remove1_insert [OF True]
      by (auto simp: l2_def l1_def length_remove1)
  next
    case False
    then show ?thesis by (simp add: l2_def l1_def remove1_append remove1_idem)
  qed
  show ?thesis
    using at1 at2 first second mem1 others1 c1 l2_eq lk by (simp add: d1)
qed


text \<open>
  Witness for the amended C4: user 2 has liked blog 12; the first call takes the like
  away, the second puts it back.
\<close>

theorem like_twice_restores_witness:
  "map_of (users ex_db) 2 = Some ex_user \<and> isActive ex_user
   \<and> map_of (blogs ex_db) 12 = Some (ex_blog Published ''a-published-blog'')
   \<and> status (ex_blog Published ''a-published-blog'') = Published
   \<and> valid_doc (ex_blog Published ''a-published-blog'')
   \<and> count_list (likes (ex_blog Published ''a-published-blog'')) 2 \<le> 1
   \<and> (\<exists>b1 b2.
         map_of (blogs (snd (like_blog (Some 2) ex_clock 12 ex_db))) 12 = Some b1
       \<and> map_of (blogs (snd (like_blog (Some 2) ex_clock 12
                                 (snd (like_blog (Some 2) ex_clock 12 ex_db))))) 12 = Some b2
       \<and> likes b1 = [] \<and> likes b2 = [2]
       \<and> set (likes b2) = set (likes (ex_blog Published ''a-published-blog''))
       \<and> length (likes b2) = length (likes (ex_blog Published ''a-published-blog'')))"
proof -
  have h: "map_of (users ex_db) 2 = Some ex_user" "isActive ex_user"
    "map_of (blogs ex_db) 12 = Some (ex_blog Published ''a-published-blog'')"
    "status (ex_blog Published ''a-published-blog'') = Published"
    "valid_doc (ex_blog Published ''a-published-blog'')"
    "count_list (likes (ex_blog Published ''a-published-blog'')) 2 \<le> 1"
    by (simp_all add: ex_db_def ex_user_def ex_blog_valid) (simp_all add: ex_blog_def)
  from like_twice_restores [OF h refl refl, of ex_clock ex_clock]
  obtain b1 b2 where
    "map_of (blogs (snd (like_blog (Some 2) ex_clock 12 ex_db))) 12 = Some b1"
    "map_of (blogs (snd (like_blog (Some 2) ex_clock 12
                           (snd (like_blog (Some 2) ex_clock 12 ex_db))))) 12 = Some b2"
    "(2 \<in> set (likes b1)) = (2 \<notin> set (likes (ex_blog Published ''a-published-blog'')))"
    "set (likes b1) - {2} = set (likes (ex_blog Published ''a-published-blog'')) - {2}"
    "set (likes b2) = set (likes (ex_blog Published ''a-published-blog''))"
    "length (likes b2) = length (likes (ex_blog Published ''a-published-blog''))"
    by blast
  moreover from this have "likes b1 = []" "likes b2 = [2]"
    by (auto simp: ex_blog_def length_Suc_conv)
  ultimately show ?thesis using h by blast
qed

subsection \<open>Approval\<close>

lemma valid_doc_approve [simp]:
  "valid_doc (b\<lparr>status := s, publishedAt := p, approvedBy := a, approvedAt := t\<rparr>) = valid_doc b"
  by (simp add: valid_doc_def)

text \<open>
  C5, as claimed, fails. The pending blog 11 of the example database passes the
  validators and carries the publish timestamp 5 from its earlier publication; the admin
  approves it, reading the clock at 9 for the publish timestamp, and the blog is stored
  published with the publish timestamp 9, not 5.
\<close>

theorem approve_overwrites_publishedAt:
  "map_of (users ex_db) 1 = Some ex_admin \<and> isActive ex_admin \<and> role ex_admin = RoleAdmin
   \<and> map_option status (map_of (blogs ex_db) 11) = Some Pending
   \<and> map_option publishedAt (map_of (blogs ex_db) 11) = Some (Some 5)
   \<and> \<not> isl (fst (approve_blog (Some 1) ex_clock 11 None ex_db))
   \<and> map_option status
        (map_of (blogs (snd (approve_blog (Some 1) ex_clock 11 None ex_db))) 11)
       = Some Published
   \<and> map_option publishedAt
        (map_of (blogs (snd (approve_blog (Some 1) ex_clock 11 None ex_db))) 11)
       = Some (Some 9)
   \<and> map_option publishedAt
        (map_of (blogs (snd (approve_blog (Some 1) ex_clock 11 None ex_db))) 11)
       \<noteq> map_option publishedAt (map_of (blogs ex_db) 11)"
  by (simp add: approve_blog_def protect_admin_def protect_def admin_def optional_isString_def
        save_def pre_save_def respond_eq valid_doc_def
        ok_title_def ok_slug_def ok_content_def ok_excerpt_def ok_category_def ok_tags_def
        ok_reason_def ok_seo_def ok_comments_def length_between_def categories_def
        ex_db_def ex_blog_def ex_admin_def ex_clock_def update_conv' Let_def)

text \<open>
  C5, amended. When an admin approves a pending blog that passes the validators of the
  schema, the blog becomes published and its publish timestamp, its approver and its
  approval timestamp are all set, to the admin and to the readings of the clock,
  whatever they were before; besides these and \<open>updatedAt\<close> no field changes.
\<close>

theorem approve_sets_timestamps:
  assumes "map_of (users d) a = Some u" and "isActive u" and "role u = RoleAdmin"
    and "map_of (blogs d) bid = Some b" and "status b = Pending"
    and "optional_isString feedback" and "valid_doc b"
    and "b' = b\<lparr>status := Published, publishedAt := Some (clk 0),
                 approvedBy := Some a, approvedAt := Some (clk 1), updatedAt := Some (clk 2)\<rparr>"
  shows "approve_blog (Some a) clk bid feedback d
           = (Inr b', d\<lparr>blogs := AList.update bid b' (blogs d)\<rparr>)
       \<and> map_of (blogs (snd (approve_blog (Some a) clk bid feedback d))) bid = Some b'
       \<and> status b' = Published \<and> publishedAt b' = Some (clk 0)
       \<and> approvedBy b' = Some a \<and> approvedAt b' = Some (clk 1)"
  using assms
  by (simp add: approve_blog_def protect_admin_Some save_def pre_save_def respond_eq
        update_conv' Let_def)

text \<open>Witness for the amended C5: the admin approves the pending blog 11.\<close>

theorem approve_sets_timestamps_witness:
  "map_of (users ex_db) 1 = Some ex_admin \<and> isActive ex_admin \<and> role ex_admin = RoleAdmin
   \<and> map_of (blogs ex_db) 11 = Some (ex_blog Pending ''a-pending-blog'')
   \<and> status (ex_blog Pending ''a-pending-blog'') = Pending
   \<and> optional_isString (Some (JString ''fine''))
   \<and> valid_doc (ex_blog Pending ''a-pending-blog'')
   \<and> map_option publishedAt
        (map_of (blogs (snd (approve_blog (Some 1) ex_clock 11 (Some (JString ''fine'')) ex_db))) 11)
       = Some (Some 9)
   \<and> map_option approvedBy
        (map_of (blogs (snd (approve_blog (Some 1) ex_clock 11 (Some (JString ''fine'')) ex_db))) 11)
       = Some (Some 1)
   \<and> map_option approvedAt
        (map_of (blogs (snd (approve_blog (Some 1) ex_clock 11 (Some (JString ''fine'')) ex_db))) 11)
       = Some (Some 10)"
proof -
  have h: "map_of (users ex_db) 1 = Some ex_admin" "isActive ex_admin" "role ex_admin = RoleAdmin"
    "map_of (blogs ex_db) 11 = Some (ex_blog Pending ''a-pending-blog'')"
    "status (ex_blog Pending ''a-pending-blog'') = Pending"
    "optional_isString (Some (JString ''fine''))"
    "valid_doc (ex_blog Pending ''a-pending-blog'')"
    by (simp_all add: ex_db_def ex_admin_def optional_isString_def ex_blog_valid)
       (simp_all add: ex_blog_def)
  from approve_sets_timestamps [OF h refl, of ex_clock] show ?thesis
    using h by (simp add: update_conv' ex_clock_def)
qed

subsection \<open>Creation and the slug\<close>

text \<open>
  The document \<open>Blog.create\<close> builds has no slug, the path is required, and validation
  runs before the hook that would set it: no request creates a blog.
\<close>

lemma create_blog_never_stores:
  "isl (fst (create_blog isURL token clk new_id body d)) \<and> snd (create_blog isURL token clk new_id body d) = d"
  by (auto simp: create_blog_def save_new_def valid_doc_def new_blog_def ok_slug_def
        split: sum.splits prod.splits)

text \<open>
  C6. The claim is that the first save of a blog computes its slug from the title.
  User 2 sends a body that passes every validator of the route; the new document has no
  slug yet, the save is refused before the hook runs, and the database is as before.
\<close>

theorem create_blog_refused:
  "map_of (users ex_db) 2 = Some ex_user \<and> isActive ex_user
   \<and> valid_create_body (\<lambda>url. True) ex_new_body
   \<and> slug (new_blog 2 ex_new_body) = None
   \<and> create_blog (\<lambda>url. True) (Some 2) ex_clock 30 ex_new_body ex_db
       = (Inl SchemaValidationError, ex_db)"
  by (simp add: create_blog_def protect_def save_new_def valid_doc_def new_blog_def ok_slug_def
        valid_create_body_def length_between_def categories_def
        ex_new_body_def ex_db_def ex_user_def)


subsection \<open>Pagination\<close>

text \<open>
  A document selected without its content does not serialise, so the listing answers
  only when its page is empty.
\<close>

lemma toJSON_all_projected: "toJSON_all False docs = (if docs = [] then Inr [] else Inl ServerError)"
  by (cases docs) (simp_all add: toJSON_all_def toJSON_def estimatedReadTime_def)

lemma list_blogs_answers_no_document:
  "list_blogs regexp order_by q d = Inr r \<Longrightarrow> data r = []"
  by (auto simp: list_blogs_def toJSON_all_projected Let_def split: if_splits option.splits)

text \<open>
  C7. The claim is that the listing answers the documents of the page and the pagination
  data. For the plain request (page 1, limit 10, no filter) on the example database,
  which holds one published blog, the handler throws while it serialises the page.
\<close>

theorem list_blogs_page_not_serialised:
  "at_least 1 (q_page ex_query) \<and> in_range 1 50 (q_limit ex_query) \<and> valid_sort (q_sort ex_query)
   \<and> filter (\<lambda>b. status b = Published) (map snd (blogs ex_db))
       = [ex_blog Published ''a-published-blog'']
   \<and> list_blogs (\<lambda>pat. None) (\<lambda>keys docs. docs) ex_query ex_db = Inl ServerError"
  by (simp add: list_blogs_def at_least_def in_range_def valid_sort_def parseInt_or_def
        compile_search_def truthy_def matches_def fl_int_def fl_def toJSON_all_projected
        ex_query_def ex_db_def ex_blog_def Let_def)

subsection \<open>Reading a blog by its slug\<close>

lemma valid_doc_views [simp]: "valid_doc (b\<lparr>views := v\<rparr>) = valid_doc b"
  by (simp add: valid_doc_def)


lemma get_blog_unauthenticated_keeps_db:
  "optionalAuth d token = None \<Longrightarrow> snd (get_blog_by_slug token s clk d) = d"
  by (auto simp: get_blog_by_slug_def respond_eq split: option.splits prod.splits)




text \<open>
  C9. When every stored blog that carries the slug is in a status other than published
  (the slug is unique, so this is the one blog with that slug being a draft, pending,
  rejected or hidden), the request answers \<open>NotFound\<close> and writes nothing: the answer
  is the one given for a database that holds no blog with that slug.
\<close>

theorem unpublished_slug_not_found:
  assumes "list_all (\<lambda>(i, b). slug b = Some s \<longrightarrow> status b \<noteq> Published) (blogs d)"
  shows "get_blog_by_slug token s clk d = (Inl NotFound, d)
       \<and> fst (get_blog_by_slug token s clk d)
           = fst (get_blog_by_slug token s clk
                    (d\<lparr>blogs := filter (\<lambda>(i, b). slug b \<noteq> Some s) (blogs d)\<rparr>))"
proof -
  have "find (\<lambda>(i, b). slug b = Some s \<and> status b = Published) (blogs d) = None"
    using assms by (auto simp: find_None_iff list_all_iff)
  moreover have "find (\<lambda>(i, b). slug b = Some s \<and> status b = Published)
                   (filter (\<lambda>(i, b). slug b \<noteq> Some s) (blogs d)) = None"
    by (auto simp: find_None_iff)
  ultimately show ?thesis by (simp add: get_blog_by_slug_def)
qed

text \<open>
  Witness for C9: the slugs of the draft, the pending, the hidden and the rejected blog
  of the example database.
\<close>

theorem unpublished_slug_not_found_witness:
  "list_all (\<lambda>(i, b). slug b = Some ''a-draft'' \<longrightarrow> status b \<noteq> Published) (blogs ex_db)
   \<and> list_all (\<lambda>(i, b). slug b = Some ''a-pending-blog'' \<longrightarrow> status b \<noteq> Published) (blogs ex_db)
   \<and> list_all (\<lambda>(i, b). slug b = Some ''a-hidden-blog'' \<longrightarrow> status b \<noteq> Published) (blogs ex_db)
   \<and> list_all (\<lambda>(i, b). slug b = Some ''a-rejected-blog'' \<longrightarrow> status b \<noteq> Published) (blogs ex_db)
   \<and> get_blog_by_slug (Some 1) ''a-draft'' ex_clock ex_db = (Inl NotFound, ex_db)
   \<and> get_blog_by_slug (Some 1) ''a-pending-blog'' ex_clock ex_db = (Inl NotFound, ex_db)
   \<and> get_blog_by_slug (Some 1) ''a-hidden-blog'' ex_clock ex_db = (Inl NotFound, ex_db)
   \<and> get_blog_by_slug (Some 1) ''a-rejected-blog'' ex_clock ex_db = (Inl NotFound, ex_db)"
proof -
  have h: "list_all (\<lambda>(i, b). slug b = Some ''a-draft'' \<longrightarrow> status b \<noteq> Published) (blogs ex_db)"
    "list_all (\<lambda>(i, b). slug b = Some ''a-pending-blog'' \<longrightarrow> status b \<noteq> Published) (blogs ex_db)"
    "list_all (\<lambda>(i, b). slug b = Some ''a-hidden-blog'' \<longrightarrow> status b \<noteq> Published) (blogs ex_db)"
    "list_all (\<lambda>(i, b). slug b = Some ''a-rejected-blog'' \<longrightarrow> status b \<noteq> Published) (blogs ex_db)"
    by (simp_all add: ex_db_def ex_blog_def)
  from unpublished_slug_not_found [OF h(1), of "Some 1" ex_clock]
       unpublished_slug_not_found [OF h(2), of "Some 1" ex_clock]
       unpublished_slug_not_found [OF h(3), of "Some 1" ex_clock]
       unpublished_slug_not_found [OF h(4), of "Some 1" ex_clock]
  show ?thesis using h by simp
qed

subsection \<open>User management\<close>

text \<open>
  C10. For an admin \<open>a\<close>: toggle-status and change-role addressed to \<open>a\<close> itself end in
  an error and leave the database, hence the active flag and the role of \<open>a\<close>, as they
  were; the error is \<open>OwnAccount\<close> (for change-role when the role is one of the two
  the validator admits). For a stored user other than \<open>a\<close>, toggle-status stores the
  user with the active flag negated and change-role stores the user with the role asked
  for.
\<close>

theorem own_account_protected:
  assumes "map_of (users d) a = Some u" and "isActive u" and "role u = RoleAdmin"
  shows "toggle_status (Some a) a d = (Inl OwnAccount, d)
       \<and> isl (fst (change_role (Some a) a r d)) \<and> snd (change_role (Some a) a r d) = d
       \<and> (role_of_string r \<noteq> None \<longrightarrow> change_role (Some a) a r d = (Inl OwnAccount, d))
       \<and> (target \<noteq> a \<and> map_of (users d) target = Some t \<longrightarrow>
            toggle_status (Some a) target d
              = (Inr (t\<lparr>isActive := \<not> isActive t\<rparr>),
                 d\<lparr>users := AList.update target (t\<lparr>isActive := \<not> isActive t\<rparr>) (users d)\<rparr>)
            \<and> map_of (users (snd (toggle_status (Some a) target d))) target
                = Some (t\<lparr>isActive := \<not> isActive t\<rparr>)
            \<and> (role_of_string r = Some new_role \<longrightarrow>
                 change_role (Some a) target r d
                   = (Inr (t\<lparr>role := new_role\<rparr>),
                      d\<lparr>users := AList.update target (t\<lparr>role := new_role\<rparr>) (users d)\<rparr>)
                 \<and> map_of (users (snd (change_role (Some a) target r d))) target
                     = Some (t\<lparr>role := new_role\<rparr>)))"
  using assms
  by (auto simp: toggle_status_def change_role_def protect_admin_Some update_conv' Let_def
        split: option.splits)

text \<open>
  Witness for C10: the admin 1 cannot deactivate or demote themselves, and deactivates
  and promotes user 2.
\<close>

theorem own_account_protected_witness:
  "map_of (users ex_db) 1 = Some ex_admin \<and> isActive ex_admin \<and> role ex_admin = RoleAdmin
   \<and> toggle_status (Some 1) 1 ex_db = (Inl OwnAccount, ex_db)
   \<and> role_of_string ''user'' = Some RoleUser
   \<and> change_role (Some 1) 1 ''user'' ex_db = (Inl OwnAccount, ex_db)
   \<and> map_of (users ex_db) 2 = Some ex_user
   \<and> map_of (users (snd (toggle_status (Some 1) 2 ex_db))) 2 = Some (ex_user\<lparr>isActive := False\<rparr>)
   \<and> role_of_string ''admin'' = Some RoleAdmin
   \<and> map_of (users (snd (change_role (Some 1) 2 ''admin'' ex_db))) 2
       = Some (ex_user\<lparr>role := RoleAdmin\<rparr>)"
proof -
  have h: "map_of (users ex_db) 1 = Some ex_admin" "isActive ex_admin" "role ex_admin = RoleAdmin"
    by (simp_all add: ex_db_def ex_admin_def)
  have t: "(2::nat) \<noteq> 1" "map_of (users ex_db) 2 = Some ex_user" "isActive ex_user"
    by (simp_all add: ex_db_def ex_user_def)
  have r: "role_of_string ''user'' = Some RoleUser" "role_of_string ''admin'' = Some RoleAdmin"
    by (simp_all add: role_of_string_def)
  from own_account_protected [OF h, of "''user''" 2 ex_user RoleUser]
       own_account_protected [OF h, of "''admin''" 2 ex_user RoleAdmin]
  show ?thesis using h t r by (simp add: update_conv')
qed

subsection \<open>The slug\<close>

text \<open>
  What the hook would store for a new blog if it ran, and what a later save does to a
  slug: only a save that modifies the title can set it.
\<close>

lemma hook_sets_slug_of_new_blog:
  "slug (pre_save {PTitle, PContent, PStatus, POther} now (new_blog uid body))
     = Some (slugify (trim (n_title body)))"
  by (simp add: pre_save_def new_blog_def falsy_def estimatedReadTime_def Let_def)

lemma pre_save_slug:
  "PTitle \<notin> modified \<Longrightarrow> slug (pre_save modified now b) = slug b"
  by (simp add: pre_save_def estimatedReadTime_def Let_def)

lemma save_keeps_slug:
  "PTitle \<notin> modified \<Longrightarrow> save modified clk k b = Inr b' \<Longrightarrow> slug b' = slug b"
  by (auto simp: save_def pre_save_slug split: if_splits)

text \<open>
  The shape of a slug: lower-case letters, digits and hyphens, no two hyphens side by
  side, none at either end, and the letters and digits of the lower-cased title in their
  order.
\<close>

lemma hyphen_not_alnum: "\<not> is_alnum CHR ''-''"
  by (simp add: is_alnum_def)

lemma collapse_runs_chars:
  "set (collapse_runs s) \<subseteq> {c. is_alnum c} \<union> {CHR ''-''}"
  by (induction s rule: collapse_runs.induct) auto

lemma collapse_runs_head:
  "collapse_runs s = CHR ''-'' # ys \<Longrightarrow> \<exists>c cs. s = c # cs \<and> \<not> is_alnum c"
  by (cases s) (auto simp: hyphen_not_alnum split: if_splits)

lemma dropWhile_head: "dropWhile P xs = c # cs \<Longrightarrow> \<not> P c"
  by (metis dropWhile_eq_Cons_conv)

lemma hyphens_single_Cons:
  "hyphens_single (a # ys) = ((a = CHR ''-'' \<longrightarrow> take 1 ys \<noteq> ''-'') \<and> hyphens_single ys)"
  by (cases ys) auto

lemma collapse_runs_single: "hyphens_single (collapse_runs s)"
proof (induction s rule: collapse_runs.induct)
  case 1
  then show ?case by simp
next
  case (2 c cs)
  show ?case
  proof (cases "is_alnum c")
    case True
    with 2 show ?thesis by (auto simp: hyphens_single_Cons hyphen_not_alnum)
  next
    case False
    have "take 1 (collapse_runs (dropWhile (\<lambda>d. \<not> is_alnum d) cs)) \<noteq> ''-''"
    proof
      assume a: "take 1 (collapse_runs (dropWhile (\<lambda>d. \<not> is_alnum d) cs)) = ''-''"
      then obtain ys where "collapse_runs (dropWhile (\<lambda>d. \<not> is_alnum d) cs) = CHR ''-'' # ys"
        by (cases "collapse_runs (dropWhile (\<lambda>d. \<not> is_alnum d) cs)") auto
      from collapse_runs_head [OF this]
      obtain e es where "dropWhile (\<lambda>d. \<not> is_alnum d) cs = e # es" "\<not> is_alnum e" by blast
      then show False using dropWhile_head by fastforce
    qed
    with False 2 show ?thesis by (simp add: hyphens_single_Cons)
  qed
qed

lemma hyphens_single_butlast: "hyphens_single xs \<Longrightarrow> hyphens_single (butlast xs)"
  by (induction xs rule: hyphens_single.induct) (auto split: if_splits)

lemma hyphens_single_last:
  "hyphens_single xs \<Longrightarrow> butlast xs \<noteq> [] \<Longrightarrow> last xs = CHR ''-''
     \<Longrightarrow> last (butlast xs) \<noteq> CHR ''-''"
  by (induction xs rule: hyphens_single.induct) (auto split: if_splits)

lemma hd_butlast: "butlast xs \<noteq> [] \<Longrightarrow> hd (butlast xs) = hd xs"
  by (cases xs) (auto split: if_splits)

lemma strip_hyphens_ends:
  assumes "hyphens_single s" and "strip_hyphens s \<noteq> []"
  shows "hd (strip_hyphens s) \<noteq> CHR ''-'' \<and> last (strip_hyphens s) \<noteq> CHR ''-''"
proof -
  define t where "t = (case s of [] \<Rightarrow> [] | c # cs \<Rightarrow> if c = CHR ''-'' then cs else s)"
  have r: "strip_hyphens s = (if t \<noteq> [] \<and> last t = CHR ''-'' then butlast t else t)"
    by (simp add: strip_hyphens_def t_def)
  have t1: "hyphens_single t" using assms(1)
    by (cases s) (auto simp: t_def hyphens_single_Cons)
  have t2: "t \<noteq> [] \<Longrightarrow> hd t \<noteq> CHR ''-''" using assms(1)
    by (cases s; cases "tl s") (auto simp: t_def split: if_splits)
  show ?thesis
  proof (cases "t \<noteq> [] \<and> last t = CHR ''-''")
    case True
    then have "strip_hyphens s = butlast t" by (simp add: r)
    moreover from this assms(2) have "butlast t \<noteq> []" by simp
    ultimately show ?thesis
      using True t1 t2 hyphens_single_last [of t] hd_butlast [of t] by simp
  next
    case False
    then have "strip_hyphens s = t" by (auto simp: r)
    with False assms(2) t2 show ?thesis by auto
  qed
qed

lemma strip_hyphens_single: "hyphens_single s \<Longrightarrow> hyphens_single (strip_hyphens s)"
  by (cases s) (auto simp: strip_hyphens_def hyphens_single_butlast hyphens_single_Cons Let_def)

lemma strip_hyphens_set: "set (strip_hyphens s) \<subseteq> set s"
  by (cases s) (auto simp: strip_hyphens_def Let_def dest: in_set_butlastD)

lemma filter_dropWhile_not: "filter P (dropWhile (\<lambda>x. \<not> P x) xs) = filter P xs"
  by (induction xs) auto

lemma collapse_runs_alnum: "filter is_alnum (collapse_runs s) = filter is_alnum s"
  by (induction s rule: collapse_runs.induct) (auto simp: hyphen_not_alnum filter_dropWhile_not)

lemma filter_butlast_hyphen:
  "t \<noteq> [] \<Longrightarrow> last t = CHR ''-'' \<Longrightarrow> filter is_alnum (butlast t) = filter is_alnum t"
proof -
  assume a: "t \<noteq> []" "last t = CHR ''-''"
  then have "t = butlast t @ [CHR ''-'']" by (metis append_butlast_last_id)
  then have "filter is_alnum t = filter is_alnum (butlast t) @ filter is_alnum [CHR ''-'']"
    by (metis filter_append)
  then show ?thesis by (simp add: hyphen_not_alnum)
qed

lemma strip_hyphens_alnum: "filter is_alnum (strip_hyphens s) = filter is_alnum s"
  by (cases s) (auto simp: strip_hyphens_def Let_def hyphen_not_alnum filter_butlast_hyphen)

lemma slugify_format:
  "set (slugify t) \<subseteq> set ''abcdefghijklmnopqrstuvwxyz0123456789-''
   \<and> hyphens_single (slugify t)
   \<and> (slugify t \<noteq> [] \<longrightarrow> hd (slugify t) \<noteq> CHR ''-'' \<and> last (slugify t) \<noteq> CHR ''-'')
   \<and> filter is_alnum (slugify t) = filter is_alnum (toLowerCase t)"
proof -
  have "set (slugify t) \<subseteq> {c. is_alnum c} \<union> {CHR ''-''}"
    using strip_hyphens_set collapse_runs_chars unfolding slugify_def by blast
  moreover have "{c. is_alnum c} \<union> {CHR ''-''} = set ''abcdefghijklmnopqrstuvwxyz0123456789-''"
    unfolding is_alnum_def by (simp only: set_simps Collect_mem_eq Un_insert_right Un_empty_right insert_commute)
  ultimately have "set (slugify t) \<subseteq> set ''abcdefghijklmnopqrstuvwxyz0123456789-''"
    by (rule subset_trans [OF _ equalityD1])
  moreover have "hyphens_single (slugify t)"
    by (simp add: slugify_def strip_hyphens_single collapse_runs_single)
  moreover have "slugify t \<noteq> [] \<longrightarrow> hd (slugify t) \<noteq> CHR ''-'' \<and> last (slugify t) \<noteq> CHR ''-''"
    using strip_hyphens_ends [OF collapse_runs_single] by (simp add: slugify_def)
  moreover have "filter is_alnum (slugify t) = filter is_alnum (toLowerCase t)"
    by (simp add: slugify_def strip_hyphens_alnum collapse_runs_alnum)
  ultimately show ?thesis by blast
qed

end
